theory Spec2Isabelle
  imports Main "HOL-Library.Word"
begin

section \<open>Values of the JavaScript program\<close>

text \<open>
  \<^verbatim>\<open>src/main.js\<close> is glue code: a handful of short functions over the libraries
  bip39, ethereumjs-wallet, js-sha3 and @ethereumjs/tx. The embedding keeps every
  function of the file as it is written and takes each library function it calls as
  a parameter, so that a theorem about the glue holds for every implementation of
  the library.

  A Node \<^verbatim>\<open>Buffer\<close> is a list of bytes, a JavaScript string a \<^typ>\<open>string\<close>, a thrown
  \<^verbatim>\<open>Error\<close> the left summand of a sum, carrying its message.
\<close>

type_synonym bytes = "8 word list"

type_synonym exn = string

text \<open>
  \<^verbatim>\<open>String.prototype.substring(start, end)\<close>: both indices are clamped to
  \<open>[0, length]\<close> and swapped when the first exceeds the second.
\<close>

definition js_substring :: "string \<Rightarrow> int \<Rightarrow> int \<Rightarrow> string" where
  "js_substring s start stop =
     (let len = int (length s);
          finalStart = min (max start 0) len;
          finalEnd = min (max stop 0) len;
          lo = min finalStart finalEnd;
          hi = max finalStart finalEnd
      in take (nat (hi - lo)) (drop (nat lo) s))"

text \<open>
  Lowercase hexadecimal, two digits per byte: the output format of js-sha3's
  \<^verbatim>\<open>keccak256\<close> and of \<^verbatim>\<open>Buffer.toString('hex')\<close>.
\<close>

definition hex_digit :: "nat \<Rightarrow> char" where
  "hex_digit n = ''0123456789abcdef'' ! (n mod 16)"

definition byte_hex :: "8 word \<Rightarrow> string" where
  "byte_hex b = [hex_digit (unat b div 16), hex_digit (unat b mod 16)]"

definition bytes_to_hex :: "bytes \<Rightarrow> string" where
  "bytes_to_hex bs = concat (map byte_hex bs)"

text \<open>The characters of a string as bytes.\<close>

definition char_bytes :: "string \<Rightarrow> bytes" where
  "char_bytes s = map of_char s"

text \<open>The last \<open>n\<close> characters of a string (all of it when it is shorter).\<close>

definition last_chars :: "nat \<Rightarrow> string \<Rightarrow> string" where
  "last_chars n s = drop (length s - n) s"

section \<open>Address derivation\<close>

text \<open>
  \<^verbatim>\<open>const keccak256 = require('js-sha3').keccak256\<close>: the digest of the message as a
  hexadecimal string. The digest function itself is the parameter \<open>K\<close>.
\<close>

definition keccak256 :: "(bytes \<Rightarrow> bytes) \<Rightarrow> bytes \<Rightarrow> string" where
  "keccak256 K msg = bytes_to_hex (K msg)"

text \<open>
  \<^verbatim>\<open>
  function deriveEthAddress(pubKey){
      const address = keccak256(pubKey)
      return "0x" + address.substring(address.length - 40, address.length)
  }
  \<close>
\<close>

definition deriveEthAddress :: "(bytes \<Rightarrow> bytes) \<Rightarrow> bytes \<Rightarrow> string" where
  "deriveEthAddress K pubKey =
     (let address = keccak256 K pubKey
      in ''0x'' @ js_substring address (int (length address) - 40) (int (length address)))"

section \<open>The libraries the program calls\<close>

text \<open>
  \<^verbatim>\<open>new Common({ chain: Chain.Mainnet, hardfork: Hardfork.Istanbul })\<close>: the chain and
  hardfork configuration object of @ethereumjs/common.
\<close>

datatype Chain = Mainnet | Ropsten | Rinkeby | Goerli | Sepolia

datatype Hardfork = Chainstart | Homestead | SpuriousDragon | Byzantium | Istanbul | Berlin | London

record Common =
  chain :: Chain
  hardfork :: Hardfork

text \<open>
  A plain JavaScript object (a transaction payload, an options object) is a finite
  map from property names to values; a property that is absent reads as \<open>None\<close>.
\<close>

datatype jsval = JStr string | JNum int | JBool bool | JCommon Common

type_synonym jsobj = "string \<rightharpoonup> jsval"

text \<open>
  bip39. \<^verbatim>\<open>generateMnemonic()\<close> draws from \<^verbatim>\<open>crypto.randomBytes\<close>, so it takes the state
  of the random source and returns the new one; \<^verbatim>\<open>mnemonicToSeed(mnemonic, password)\<close>
  takes an optional password.
\<close>

record 'rng bip39_lib =
  bip39_generateMnemonic :: "'rng \<Rightarrow> string \<times> 'rng"
  mnemonicToSeed :: "string \<Rightarrow> string option \<Rightarrow> bytes"

text \<open>
  ethereumjs-wallet. \<open>'hd\<close> is a node of the key tree (\<^verbatim>\<open>hdkey\<close>), \<open>'w\<close> a wallet.
  \<^verbatim>\<open>derivePath\<close> and \<^verbatim>\<open>Wallet.fromPrivateKey\<close> can throw.
\<close>

record ('hd, 'w) wallet_lib =
  fromMasterSeed :: "bytes \<Rightarrow> 'hd"
  derivePath :: "'hd \<Rightarrow> string \<Rightarrow> exn + 'hd"
  getWallet :: "'hd \<Rightarrow> 'w"
  getPrivateKey :: "'w \<Rightarrow> bytes"
  fromPrivateKey :: "bytes \<Rightarrow> exn + 'w"
  getPublicKey :: "'w \<Rightarrow> bytes"

text \<open>
  @ethereumjs/tx. \<open>'tx\<close> is an unsigned transaction object of either class, \<open>'stx\<close> a
  signed one, \<open>'addr\<close> the \<^verbatim>\<open>Address\<close> object that \<^verbatim>\<open>getSenderAddress()\<close> returns. Both
  \<^verbatim>\<open>fromTxData\<close> functions take the payload and an options object; \<open>tx_vrs\<close> reads the
  properties \<^verbatim>\<open>v\<close>, \<^verbatim>\<open>r\<close> and \<^verbatim>\<open>s\<close> of a signed transaction; \<^verbatim>\<open>toString\<close> is given the
  argument it is called with.
\<close>

record ('tx, 'stx, 'addr) tx_lib =
  Transaction_fromTxData :: "jsobj \<Rightarrow> jsobj \<Rightarrow> exn + 'tx"
  FeeMarketEIP1559Transaction_fromTxData :: "jsobj \<Rightarrow> jsobj \<Rightarrow> exn + 'tx"
  tx_sign :: "'tx \<Rightarrow> bytes \<Rightarrow> exn + 'stx"
  tx_vrs :: "'stx \<Rightarrow> nat \<times> nat \<times> nat"
  getSenderAddress :: "'stx \<Rightarrow> exn + 'addr"
  Address_toString :: "'addr \<Rightarrow> string \<Rightarrow> string"

section \<open>The functions of main.js\<close>

text \<open>
  \<^verbatim>\<open>
  function generateMnemonic(){
      return BIP39.generateMnemonic()
  }
  function generateSeed(mnemonic){
      return BIP39.mnemonicToSeed(mnemonic)
  }
  \<close>
\<close>

definition generateMnemonic :: "'rng bip39_lib \<Rightarrow> 'rng \<Rightarrow> string \<times> 'rng" where
  "generateMnemonic B rng = bip39_generateMnemonic B rng"

definition generateSeed :: "'rng bip39_lib \<Rightarrow> string \<Rightarrow> bytes" where
  "generateSeed B mnemonic = mnemonicToSeed B mnemonic None"

text \<open>
  A call \<^verbatim>\<open>generateSeed(mnemonic, passphrase)\<close>. The function declares the one parameter
  \<^verbatim>\<open>mnemonic\<close>; JavaScript binds the first argument to it and drops the second.
\<close>

definition generateSeed_call :: "'rng bip39_lib \<Rightarrow> string \<Rightarrow> string \<Rightarrow> bytes" where
  "generateSeed_call B mnemonic passphrase = generateSeed B mnemonic"

text \<open>
  \<^verbatim>\<open>hdkey.fromMasterSeed(seed).derivePath(path).getWallet().getPrivateKey()\<close>, the
  chain of library calls that yields the private key at a path.
\<close>

definition hdkey_privateKey :: "('hd, 'w) wallet_lib \<Rightarrow> bytes \<Rightarrow> string \<Rightarrow> exn + bytes" where
  "hdkey_privateKey W seed path =
     (case derivePath W (fromMasterSeed W seed) path of
        Inl e \<Rightarrow> Inl e
      | Inr node \<Rightarrow> Inr (getPrivateKey W (getWallet W node)))"

text \<open>
  \<^verbatim>\<open>
  function generatePrivKey(mnemonic){
      const seed = generateSeed(mnemonic)
      return hdkey.fromMasterSeed(seed).derivePath(`m/44'/60'/0'/0/0`).getWallet().getPrivateKey()
  }
  \<close>
\<close>

definition generatePrivKey ::
  "'rng bip39_lib \<Rightarrow> ('hd, 'w) wallet_lib \<Rightarrow> string \<Rightarrow> exn + bytes" where
  "generatePrivKey B W mnemonic =
     (let seed = generateSeed B mnemonic
      in hdkey_privateKey W seed ''m/44'/60'/0'/0/0'')"

text \<open>
  \<^verbatim>\<open>
  function derivePubKey(privKey){
      const wallet = Wallet.fromPrivateKey(privKey)
      return wallet.getPublicKey()
  }
  \<close>
\<close>

definition derivePubKey :: "('hd, 'w) wallet_lib \<Rightarrow> bytes \<Rightarrow> exn + bytes" where
  "derivePubKey W privKey =
     (case fromPrivateKey W privKey of
        Inl e \<Rightarrow> Inl e
      | Inr wallet \<Rightarrow> Inr (getPublicKey W wallet))"

text \<open>
  \<^verbatim>\<open>
  function signLegacyTx(privKey, txData){
      const txParams = new Common({ chain: Chain.Mainnet, hardfork: Hardfork.Istanbul })
      const tx = Transaction.fromTxData(txData, { txParams })
      return tx.sign(privKey)
  }
  function signEIP1559Tx(privKey, txData){
      const txOptions = new Common({ chain: Chain.Mainnet, hardfork: Hardfork.London })
      const tx = FeeMarketEIP1559Transaction.fromTxData(txData, { txOptions })
      return tx.sign(privKey)
  }
  \<close>
  The shorthand \<^verbatim>\<open>{ txParams }\<close> is the object with the one property \<^verbatim>\<open>txParams\<close>.
\<close>

definition signLegacyTx :: "('tx, 'stx, 'addr) tx_lib \<Rightarrow> bytes \<Rightarrow> jsobj \<Rightarrow> exn + 'stx" where
  "signLegacyTx L privKey txData =
     (let txParams = \<lparr>chain = Mainnet, hardfork = Istanbul\<rparr>
      in case Transaction_fromTxData L txData [''txParams'' \<mapsto> JCommon txParams] of
           Inl e \<Rightarrow> Inl e
         | Inr tx \<Rightarrow> tx_sign L tx privKey)"

definition signEIP1559Tx :: "('tx, 'stx, 'addr) tx_lib \<Rightarrow> bytes \<Rightarrow> jsobj \<Rightarrow> exn + 'stx" where
  "signEIP1559Tx L privKey txData =
     (let txOptions = \<lparr>chain = Mainnet, hardfork = London\<rparr>
      in case FeeMarketEIP1559Transaction_fromTxData L txData [''txOptions'' \<mapsto> JCommon txOptions] of
           Inl e \<Rightarrow> Inl e
         | Inr tx \<Rightarrow> tx_sign L tx privKey)"

text \<open>
  \<^verbatim>\<open>
  function getSignerAddress(signedTx){
      return "0x" + signedTx.getSenderAddress().toString('hex')
  }
  \<close>
\<close>

definition getSignerAddress :: "('tx, 'stx, 'addr) tx_lib \<Rightarrow> 'stx \<Rightarrow> exn + string" where
  "getSignerAddress L signedTx =
     (case getSenderAddress L signedTx of
        Inl e \<Rightarrow> Inl e
      | Inr a \<Rightarrow> Inr (''0x'' @ Address_toString L a ''hex''))"

text \<open>The two sample payloads held by the page's data (\<^verbatim>\<open>mnemonicVue.data\<close>).\<close>

definition sampleLegacyTransaction :: jsobj where
  "sampleLegacyTransaction =
     [''nonce'' \<mapsto> JStr ''0x00'',
      ''gasPrice'' \<mapsto> JStr ''0x09184e72a000'',
      ''gasLimit'' \<mapsto> JStr ''0x2710'',
      ''to'' \<mapsto> JStr ''0x31c1c0fec59ceb9cbe6ec474c31c1dc5b66555b6'',
      ''value'' \<mapsto> JStr ''0x10'',
      ''data'' \<mapsto> JStr ''0x7f7465737432000000000000000000000000000000000000000000000000000000600057'',
      ''chainId'' \<mapsto> JNum 3]"

definition sampleEIP1559Transaction :: jsobj where
  "sampleEIP1559Transaction =
     [''nonce'' \<mapsto> JStr ''0x00'',
      ''type'' \<mapsto> JNum 2,
      ''maxPriorityFeePerGas'' \<mapsto> JStr ''0x09184e72a000'',
      ''maxFeePerGas'' \<mapsto> JStr ''0x09184e72a000'',
      ''gasLimit'' \<mapsto> JStr ''0x2710'',
      ''to'' \<mapsto> JStr ''0x31c1c0fec59ceb9cbe6ec474c31c1dc5b66555b6'',
      ''value'' \<mapsto> JStr ''0x10'',
      ''data'' \<mapsto> JStr ''0x7f7465737432000000000000000000000000000000000000000000000000000000600057'',
      ''chainId'' \<mapsto> JNum 3]"

section \<open>Notions the claims are stated with\<close>

text \<open>
  The two payload shapes of the specification: a legacy payload carries \<^verbatim>\<open>gasPrice\<close>,
  a fee-market payload carries \<^verbatim>\<open>maxPriorityFeePerGas\<close> and \<^verbatim>\<open>maxFeePerGas\<close>.
\<close>

definition legacy_shape :: "jsobj \<Rightarrow> bool" where
  "legacy_shape txData = (txData ''gasPrice'' \<noteq> None)"

definition feeMarket_shape :: "jsobj \<Rightarrow> bool" where
  "feeMarket_shape txData =
     (txData ''maxPriorityFeePerGas'' \<noteq> None \<and> txData ''maxFeePerGas'' \<noteq> None)"

definition UnsupportedTransactionType :: exn where
  "UnsupportedTransactionType = ''UnsupportedTransactionType''"

text \<open>
  A constructor reads its options object only through the properties in \<open>keys\<close>: two
  options objects that agree on them give the same result.
\<close>

definition reads_only :: "string set \<Rightarrow> (jsobj \<Rightarrow> jsobj \<Rightarrow> 'r) \<Rightarrow> bool" where
  "reads_only keys ctor =
     (\<forall>txData opts opts'. (\<forall>k\<in>keys. opts k = opts' k) \<longrightarrow> ctor txData opts = ctor txData opts')"

section \<open>Library functions modelled from the specification\<close>

text \<open>
  Two functions of the libraries decide claims without being in the repository's
  files: bip39's \<^verbatim>\<open>validateMnemonic\<close>, of which the README shows one call, and the
  \<^verbatim>\<open>sign\<close> method of @ethereumjs/tx. Both are written down here as the specification
  describes them, over helper functions on words and bits.
\<close>

fun split_on :: "char \<Rightarrow> string \<Rightarrow> string list" where
  "split_on c [] = [[]]"
| "split_on c (x # xs) =
     (if x = c then [] # split_on c xs
      else (case split_on c xs of [] \<Rightarrow> [[x]] | w # ws \<Rightarrow> (x # w) # ws))"

fun index_of :: "'a list \<Rightarrow> 'a \<Rightarrow> nat" where
  "index_of [] y = 0"
| "index_of (x # xs) y = (if x = y then 0 else Suc (index_of xs y))"

fun bits_of :: "nat \<Rightarrow> nat \<Rightarrow> bool list" where
  "bits_of 0 n = []"
| "bits_of (Suc w) n = bits_of w (n div 2) @ [odd n]"

fun bits_to_bytes :: "bool list \<Rightarrow> bytes" where
  "bits_to_bytes (b7 # b6 # b5 # b4 # b3 # b2 # b1 # b0 # bs) =
     of_nat (foldl (\<lambda>acc b. 2 * acc + of_bool b) 0 [b7, b6, b5, b4, b3, b2, b1, b0])
       # bits_to_bytes bs"
| "bits_to_bytes bs = []"

definition bytes_to_bits :: "bytes \<Rightarrow> bool list" where
  "bytes_to_bits bs = concat (map (\<lambda>b. bits_of 8 (unat b)) bs)"

text \<open>
  Modelled from the spec: the lengths a mnemonic can have (section 4.1), those of 128,
  160, 192, 224 and 256 bits of entropy with one checksum bit per 32 bits, at 11 bits
  a word.
\<close>

definition mnemonic_word_counts :: "nat list" where
  "mnemonic_word_counts = [12, 15, 18, 21, 24]"

text \<open>
  Modelled from the spec: the checksum that \<^verbatim>\<open>validateMnemonic\<close> recomputes (section 4.1;
  bip39 is not in the repository's files). The words' indices, 11 bits each, are the
  entropy followed by the checksum, which must be the first bits of the hash of the
  entropy. The hash is the parameter \<open>H\<close>.
\<close>

definition checksum_ok :: "(bytes \<Rightarrow> bytes) \<Rightarrow> nat list \<Rightarrow> bool" where
  "checksum_ok H indices =
     (let bits = concat (map (bits_of 11) indices);
          cs = length indices div 3;
          entropy = take (length bits - cs) bits;
          embedded = drop (length bits - cs) bits
      in embedded = take cs (bytes_to_bits (H (bits_to_bytes entropy))))"

text \<open>
  Modelled from the spec: \<^verbatim>\<open>validateMnemonic\<close> of section 4.1, a function of the bip39
  library, of which the repository only shows a call in its README. It recomputes
  the checksum and rejects any sequence that is not in the wordlist, has a wrong
  length or has a bad checksum, returning false instead of failing.
\<close>

definition validateMnemonic :: "string list \<Rightarrow> (bytes \<Rightarrow> bytes) \<Rightarrow> string \<Rightarrow> bool" where
  "validateMnemonic wordlist H candidate =
     (let ws = split_on CHR '' '' candidate
      in length ws \<in> set mnemonic_word_counts
       \<and> list_all (\<lambda>w. w \<in> set wordlist) ws
       \<and> checksum_ok H (map (index_of wordlist) ws))"

text \<open>
  The signer of section 4.5 works on a transaction of one of two variants and
  returns it with the signature triple. The encoding, the hash, the nonce and the
  curve arithmetic are parameters.
\<close>

datatype tx_variant = Legacy | FeeMarket

record 'tx signed_tx =
  unsigned :: 'tx
  sig_v :: nat
  sig_r :: nat
  sig_s :: nat

record 'tx signer_primitives =
  variant_of :: "'tx \<Rightarrow> tx_variant"
  chainId_of :: "'tx \<Rightarrow> nat"
  encode_tx :: "'tx \<Rightarrow> bytes"
  digest :: "bytes \<Rightarrow> bytes"
  nonce_of :: "bytes \<Rightarrow> bytes \<Rightarrow> nat"
  ecdsa_sign :: "bytes \<Rightarrow> bytes \<Rightarrow> nat \<Rightarrow> bool \<times> nat \<times> nat"

definition secp256k1_order :: nat where
  "secp256k1_order = 0xFFFFFFFFFFFFFFFFFFFFFFFFFFFFFFFEBAAEDCE6AF48A03BBFD25E8CD0364141"

definition be_nat :: "bytes \<Rightarrow> nat" where
  "be_nat bs = foldl (\<lambda>acc b. 256 * acc + unat b) 0 bs"

text \<open>
  Modelled from the spec: the validity check of section 4.3 on a private key, a
  32-byte scalar that is not zero and is below the curve order.
\<close>

definition valid_private_key :: "bytes \<Rightarrow> bool" where
  "valid_private_key key = (length key = 32 \<and> 0 < be_nat key \<and> be_nat key < secp256k1_order)"

text \<open>
  Modelled from the spec: step 5 of section 4.5, the recovery identifier computed from
  the signature's recovery bit by the variant's convention (in the repository this
  happens inside \<^verbatim>\<open>tx.sign\<close> of @ethereumjs/tx, which is not in its files).
\<close>

definition recovery_id :: "tx_variant \<Rightarrow> nat \<Rightarrow> bool \<Rightarrow> nat" where
  "recovery_id var cid recoveryBit =
     (case var of
        Legacy \<Rightarrow> of_bool recoveryBit + cid * 2 + 35
      | FeeMarket \<Rightarrow> of_bool recoveryBit)"

text \<open>
  Modelled from the spec: steps 2 to 4 of section 4.5. The transaction is encoded,
  the encoding hashed and the hash signed with ECDSA, under a nonce that is computed
  from the key and the hash and from nothing else (RFC 6979). The result is the
  recovery bit with \<open>r\<close> and \<open>s\<close>.
\<close>

definition tx_signature :: "'tx signer_primitives \<Rightarrow> 'tx \<Rightarrow> bytes \<Rightarrow> bool \<times> nat \<times> nat" where
  "tx_signature P tx key =
     (let h = digest P (encode_tx P tx)
      in ecdsa_sign P h key (nonce_of P key h))"

text \<open>
  Modelled from the spec: the signer of section 4.5, which in the repository is the
  library method \<^verbatim>\<open>tx.sign\<close> (not in its files). A key that fails the validity check
  is refused with \<^verbatim>\<open>SigningKeyInvalid\<close>; otherwise the signed transaction is the
  original one with \<open>(v, r, s)\<close>.
\<close>

definition spec_sign :: "'tx signer_primitives \<Rightarrow> 'tx \<Rightarrow> bytes \<Rightarrow> exn + 'tx signed_tx" where
  "spec_sign P tx key =
     (if \<not> valid_private_key key then Inl ''SigningKeyInvalid''
      else (case tx_signature P tx key of
              (recoveryBit, r, s) \<Rightarrow>
                Inr \<lparr>unsigned = tx,
                     sig_v = recovery_id (variant_of P tx) (chainId_of P tx) recoveryBit,
                     sig_r = r,
                     sig_s = s\<rparr>))"

text \<open>
  Modelled from the spec: the signed transaction that steps 4 to 6 of section 4.5 give
  when the signature is made under the nonce \<open>k\<close>.
\<close>

definition signed_with_nonce :: "'tx signer_primitives \<Rightarrow> 'tx \<Rightarrow> bytes \<Rightarrow> nat \<Rightarrow> 'tx signed_tx" where
  "signed_with_nonce P tx key k =
     (case ecdsa_sign P (digest P (encode_tx P tx)) key k of
        (recoveryBit, r, s) \<Rightarrow>
          \<lparr>unsigned = tx,
           sig_v = recovery_id (variant_of P tx) (chainId_of P tx) recoveryBit,
           sig_r = r,
           sig_s = s\<rparr>)"

text \<open>
  Modelled from the spec: what one invocation of the signer of section 4.5 can return
  when its nonce generator may produce, for a key and a hash, any nonce of the set
  \<open>nonces key hash\<close>. An ECDSA signer that draws its nonce at random has many outcomes
  for one transaction and key; the specification asks for a generator in the style
  of RFC 6979, which has one.
\<close>

definition sign_outcomes ::
  "'tx signer_primitives \<Rightarrow> (bytes \<Rightarrow> bytes \<Rightarrow> nat set) \<Rightarrow> 'tx \<Rightarrow> bytes
     \<Rightarrow> (exn + 'tx signed_tx) set" where
  "sign_outcomes P nonces tx key =
     (if \<not> valid_private_key key then {Inl ''SigningKeyInvalid''}
      else (\<lambda>k. Inr (signed_with_nonce P tx key k)) ` nonces key (digest P (encode_tx P tx)))"

text \<open>
  Modelled from the spec: deterministic nonce generation (step 4 of section 4.5). The
  generator offers at most one nonce for a key and a hash; that of RFC 6979 offers
  the one computed from them.
\<close>

definition deterministic_nonces :: "(bytes \<Rightarrow> bytes \<Rightarrow> nat set) \<Rightarrow> bool" where
  "deterministic_nonces nonces =
     (\<forall>key h k k'. k \<in> nonces key h \<and> k' \<in> nonces key h \<longrightarrow> k = k')"

definition rfc6979_nonces :: "'tx signer_primitives \<Rightarrow> bytes \<Rightarrow> bytes \<Rightarrow> nat set" where
  "rfc6979_nonces P key h = {nonce_of P key h}"

definition signature_triple :: "'tx signed_tx \<Rightarrow> nat \<times> nat \<times> nat" where
  "signature_triple stx = (sig_v stx, sig_r stx, sig_s stx)"

text \<open>
  Modelled from the spec: the stretch of section 4.2, which in the repository is
  bip39's \<^verbatim>\<open>mnemonicToSeed\<close> (not in its files). It is the standard password-based key
  derivation: the first value is the HMAC, keyed with the password, of the salt
  followed by the block number 1; each further value is the HMAC of the one before;
  the result is the exclusive or of all of them. The HMAC and the number of rounds
  are parameters.
\<close>

definition xor_bytes :: "bytes \<Rightarrow> bytes \<Rightarrow> bytes" where
  "xor_bytes a b = map2 xor a b"

primrec hmac_iterate :: "(bytes \<Rightarrow> bytes) \<Rightarrow> nat \<Rightarrow> bytes \<Rightarrow> bytes \<Rightarrow> bytes" where
  "hmac_iterate f 0 u acc = acc"
| "hmac_iterate f (Suc n) u acc = hmac_iterate f n (f u) (xor_bytes acc (f u))"

definition stretch :: "(bytes \<Rightarrow> bytes \<Rightarrow> bytes) \<Rightarrow> nat \<Rightarrow> bytes \<Rightarrow> bytes \<Rightarrow> bytes" where
  "stretch hmac rounds password salt =
     (let u1 = hmac password (salt @ [0, 0, 0, 1])
      in hmac_iterate (hmac password) (rounds - 1) u1 u1)"

text \<open>
  Modelled from the spec: \<^verbatim>\<open>mnemonicToSeed(mnemonic, passphrase = "")\<close> of section 4.2.
  The password of the stretch is the mnemonic string, the salt is constructed from
  the passphrase (by the parameter \<open>salt_of\<close>; an absent passphrase is the empty one),
  and the output is cut to 64 bytes.
\<close>

definition spec_mnemonicToSeed ::
  "(bytes \<Rightarrow> bytes \<Rightarrow> bytes) \<Rightarrow> nat \<Rightarrow> (string \<Rightarrow> bytes) \<Rightarrow> string \<Rightarrow> string option
     \<Rightarrow> bytes" where
  "spec_mnemonicToSeed hmac rounds salt_of mnemonic passphrase =
     take 64 (stretch hmac rounds (char_bytes mnemonic)
                (salt_of (case passphrase of None \<Rightarrow> [] | Some p \<Rightarrow> p)))"

section \<open>A small instance of the libraries\<close>

text \<open>
  To evaluate the functions of \<^verbatim>\<open>main.js\<close> at concrete inputs, the library interfaces
  are instantiated with small executable stand-ins. They keep the shape of the real
  libraries (a 32-byte digest, a 64-byte seed, a child key that depends on the path,
  constructors that read an absent payload field as empty and look only at the
  \<^verbatim>\<open>common\<close> option, an address printed with its \<open>0x\<close> prefix) and none of their
  cryptography.
\<close>

definition demo_digest :: "bytes \<Rightarrow> bytes" where
  "demo_digest msg = take 32 (rev msg @ replicate 32 0)"

definition demo_bip39 :: "bytes bip39_lib" where
  "demo_bip39 =
     \<lparr>bip39_generateMnemonic = (\<lambda>rng. (bytes_to_hex (take 16 rng), drop 16 rng)),
      mnemonicToSeed = (\<lambda>mnemonic password.
        take 64 (char_bytes (mnemonic @ ''mnemonic'' @ (case password of None \<Rightarrow> [] | Some p \<Rightarrow> p))
                 @ replicate 64 0))\<rparr>"

definition demo_wallet :: "(bytes, bytes) wallet_lib" where
  "demo_wallet =
     \<lparr>fromMasterSeed = (\<lambda>seed. take 32 seed),
      derivePath = (\<lambda>node path.
        if take 2 path = ''m/'' then Inr (take 32 (rev (char_bytes path) @ node))
        else Inl ''Invalid derivation path''),
      getWallet = (\<lambda>node. node),
      getPrivateKey = (\<lambda>w. w),
      fromPrivateKey = (\<lambda>key.
        if valid_private_key key then Inr key
        else Inl ''Private key does not satisfy the curve requirements''),
      getPublicKey = (\<lambda>w. w @ rev w)\<rparr>"

record demo_tx =
  d_variant :: tx_variant
  d_chainId :: nat
  d_fields :: "jsval option list"

definition chain_number :: "Chain \<Rightarrow> nat" where
  "chain_number c =
     (case c of Mainnet \<Rightarrow> 1 | Ropsten \<Rightarrow> 3 | Rinkeby \<Rightarrow> 4 | Goerli \<Rightarrow> 5 | Sepolia \<Rightarrow> 11155111)"

definition demo_chainId :: "jsobj \<Rightarrow> nat" where
  "demo_chainId opts = (case opts ''common'' of Some (JCommon c) \<Rightarrow> chain_number (chain c) | _ \<Rightarrow> 1)"

definition demo_fromTxData :: "tx_variant \<Rightarrow> string list \<Rightarrow> jsobj \<Rightarrow> jsobj \<Rightarrow> exn + demo_tx" where
  "demo_fromTxData var names txData opts =
     Inr \<lparr>d_variant = var, d_chainId = demo_chainId opts, d_fields = map txData names\<rparr>"

definition demo_encode :: "demo_tx \<Rightarrow> bytes" where
  "demo_encode tx =
     of_nat (d_chainId tx)
       # concat (map (\<lambda>f. case f of Some (JStr s) \<Rightarrow> char_bytes s
                                  | Some (JNum n) \<Rightarrow> [of_int n]
                                  | _ \<Rightarrow> [])
                     (d_fields tx))"

definition demo_primitives :: "demo_tx signer_primitives" where
  "demo_primitives =
     \<lparr>variant_of = d_variant,
      chainId_of = d_chainId,
      encode_tx = demo_encode,
      digest = demo_digest,
      nonce_of = (\<lambda>key h. be_nat (take 2 h) + 1),
      ecdsa_sign = (\<lambda>h key k. (odd (k - 1 + be_nat key), k, k - 1 + be_nat key))\<rparr>"

text \<open>
  The stand-in signature gives its key away (\<open>s + 1 - r\<close>), which lets the stand-in
  recovery return the address of the key that signed, as the real recovery does.
\<close>

fun be_bytes :: "nat \<Rightarrow> nat \<Rightarrow> bytes" where
  "be_bytes 0 n = []"
| "be_bytes (Suc len) n = be_bytes len (n div 256) @ [of_nat n]"

definition demo_address :: "bytes \<Rightarrow> bytes" where
  "demo_address key = drop 12 (demo_digest (key @ rev key))"

definition demo_txlib :: "(demo_tx, demo_tx signed_tx, bytes) tx_lib" where
  "demo_txlib =
     \<lparr>Transaction_fromTxData =
        demo_fromTxData Legacy [''nonce'', ''gasPrice'', ''gasLimit'', ''to'', ''value'', ''data''],
      FeeMarketEIP1559Transaction_fromTxData =
        demo_fromTxData FeeMarket
          [''chainId'', ''nonce'', ''maxPriorityFeePerGas'', ''maxFeePerGas'', ''gasLimit'', ''to'',
           ''value'', ''data'', ''accessList''],
      tx_sign = spec_sign demo_primitives,
      tx_vrs = (\<lambda>stx. (sig_v stx, sig_r stx, sig_s stx)),
      getSenderAddress = (\<lambda>stx. Inr (demo_address (be_bytes 32 (sig_s stx + 1 - sig_r stx)))),
      Address_toString = (\<lambda>a enc. ''0x'' @ bytes_to_hex a)\<rparr>"

definition demo_privKey :: bytes where
  "demo_privKey =
     [0, 0, 0, 0, 0, 0, 0, 0, 0, 0, 0, 0, 0, 0, 0, 0,
      0, 0, 0, 0, 0, 0, 0, 0, 0, 0, 0, 0, 0, 0, 0, 1]"

definition demo_pubKey :: bytes where
  "demo_pubKey = demo_privKey @ rev demo_privKey"

definition demo_signed_legacy :: "demo_tx signed_tx" where
  "demo_signed_legacy =
     \<lparr>unsigned =
        \<lparr>d_variant = Legacy, d_chainId = 1,
         d_fields = map sampleLegacyTransaction
           [''nonce'', ''gasPrice'', ''gasLimit'', ''to'', ''value'', ''data'']\<rparr>,
      sig_v = 37, sig_r = 14134, sig_s = 14134\<rparr>"

definition demo_signed_feeMarket :: "demo_tx signed_tx" where
  "demo_signed_feeMarket =
     \<lparr>unsigned =
        \<lparr>d_variant = FeeMarket, d_chainId = 1,
         d_fields = map sampleEIP1559Transaction
           [''chainId'', ''nonce'', ''maxPriorityFeePerGas'', ''maxFeePerGas'', ''gasLimit'', ''to'',
            ''value'', ''data'', ''accessList'']\<rparr>,
      sig_v = 0, sig_r = 14134, sig_s = 14134\<rparr>"

definition demo_mnemonic :: string where
  "demo_mnemonic = ''test test test test test test test test test test test junk''"

text \<open>The legacy sample without its \<^verbatim>\<open>gasPrice\<close>: a payload of neither shape.\<close>

definition payload_without_fees :: jsobj where
  "payload_without_fees = sampleLegacyTransaction(''gasPrice'' := None)"

text \<open>
  A seed library whose \<^verbatim>\<open>mnemonicToSeed\<close> is the stretch of the specification, over a
  stand-in for the HMAC with 64 bytes of output, and the same library with another
  mnemonic generator.
\<close>

definition demo_hmac :: "bytes \<Rightarrow> bytes \<Rightarrow> bytes" where
  "demo_hmac key msg = take 64 (rev msg @ key @ replicate 64 0)"

definition demo_salt :: "string \<Rightarrow> bytes" where
  "demo_salt passphrase = char_bytes (''mnemonic'' @ passphrase)"

definition demo_bip39_stretch :: "bytes bip39_lib" where
  "demo_bip39_stretch =
     demo_bip39\<lparr>mnemonicToSeed := spec_mnemonicToSeed demo_hmac 3 demo_salt\<rparr>"

definition demo_bip39_fixed :: "bytes bip39_lib" where
  "demo_bip39_fixed =
     demo_bip39_stretch\<lparr>bip39_generateMnemonic := (\<lambda>rng. (demo_mnemonic, rng))\<rparr>"

text \<open>
  The transaction library at one invocation, its signer taking the nonce that
  \<open>pick\<close> gives for the key and the hash. A signer in the style of RFC 6979 has the
  same \<open>pick\<close> at every invocation, computed from key and hash; a signer with a
  random nonce has at each invocation the constant it has drawn.
\<close>

definition demo_txlib_with ::
  "(bytes \<Rightarrow> bytes \<Rightarrow> nat) \<Rightarrow> (demo_tx, demo_tx signed_tx, bytes) tx_lib" where
  "demo_txlib_with pick =
     demo_txlib\<lparr>tx_sign := (\<lambda>tx key.
        if \<not> valid_private_key key then Inl ''SigningKeyInvalid''
        else Inr (signed_with_nonce demo_primitives tx key
                    (pick key (digest demo_primitives (encode_tx demo_primitives tx)))))\<rparr>"

section \<open>Properties of the address derivation\<close>

lemma js_substring_tail:
  "js_substring s (int (length s) - int n) (int (length s)) = last_chars n s"
proof (cases "n \<le> length s")
  case True
  then have "nat (int (length s) - int n) = length s - n"
    by simp
  with True show ?thesis
    by (simp add: js_substring_def last_chars_def Let_def min_def max_def)
next
  case False
  then show ?thesis
    by (simp add: js_substring_def last_chars_def Let_def min_def max_def)
qed

lemma length_byte_hex: "length (byte_hex b) = 2"
  by (simp add: byte_hex_def)

lemma length_bytes_to_hex: "length (bytes_to_hex bs) = 2 * length bs"
  by (induction bs) (simp_all add: bytes_to_hex_def length_byte_hex)

lemma bytes_to_hex_append: "bytes_to_hex (xs @ ys) = bytes_to_hex xs @ bytes_to_hex ys"
  by (simp add: bytes_to_hex_def)

lemma drop_bytes_to_hex: "drop (2 * k) (bytes_to_hex bs) = bytes_to_hex (drop k bs)"
proof -
  have "bytes_to_hex bs = bytes_to_hex (take k bs) @ bytes_to_hex (drop k bs)"
    by (simp add: bytes_to_hex_append [symmetric])
  moreover have "length (bytes_to_hex (take k bs)) = 2 * min (length bs) k"
    by (simp add: length_bytes_to_hex)
  ultimately show ?thesis
    by (cases "k \<le> length bs") (simp_all add: min_def length_bytes_to_hex)
qed

lemma hex_digit_in_alphabet: "hex_digit n \<in> set ''0123456789abcdef''"
proof -
  have "n mod 16 < length ''0123456789abcdef''"
    by simp
  then show ?thesis
    unfolding hex_digit_def by (rule nth_mem)
qed

lemma bytes_to_hex_alphabet: "set (bytes_to_hex bs) \<subseteq> set ''0123456789abcdef''"
proof (induction bs)
  case Nil
  show ?case by (simp add: bytes_to_hex_def)
next
  case (Cons b bs)
  have "set (byte_hex b) \<subseteq> set ''0123456789abcdef''"
    using hex_digit_in_alphabet [of "unat b div 16"] hex_digit_in_alphabet [of "unat b mod 16"]
    by (simp add: byte_hex_def)
  with Cons show ?case
    by (simp add: bytes_to_hex_def)
qed

lemma last_chars_alphabet:
  "set (last_chars n (bytes_to_hex bs)) \<subseteq> set ''0123456789abcdef''"
  using set_drop_subset [of "length (bytes_to_hex bs) - n" "bytes_to_hex bs"]
    bytes_to_hex_alphabet [of bs]
  unfolding last_chars_def by (rule subset_trans)

lemma deriveEthAddress_tail:
  "deriveEthAddress K pubKey = ''0x'' @ last_chars 40 (keccak256 K pubKey)"
proof -
  have "js_substring (keccak256 K pubKey) (int (length (keccak256 K pubKey)) - int 40)
          (int (length (keccak256 K pubKey))) = last_chars 40 (keccak256 K pubKey)"
    by (rule js_substring_tail)
  then show ?thesis
    by (simp add: deriveEthAddress_def Let_def)
qed

text \<open>
  Claim C9. \<open>deriveEthAddress\<close> checks nothing about its argument and has no failing
  branch: for every byte string, of any length (empty, a compressed key, anything),
  and every digest function, it returns \<open>0x\<close> followed by the last 40 characters of
  the hexadecimal digest. The start index of \<^verbatim>\<open>substring\<close> is clamped at 0, so even a
  digest shorter than 20 bytes raises nothing: the result then holds all of it.
\<close>

theorem deriveEthAddress_total:
  "deriveEthAddress K pubKey = ''0x'' @ last_chars 40 (bytes_to_hex (K pubKey))
 \<and> take 2 (deriveEthAddress K pubKey) = ''0x''
 \<and> length (deriveEthAddress K pubKey) = 2 + min 40 (2 * length (K pubKey))"
proof -
  have eq: "deriveEthAddress K pubKey = ''0x'' @ last_chars 40 (bytes_to_hex (K pubKey))"
    by (simp add: deriveEthAddress_tail keccak256_def)
  have "length (last_chars 40 (bytes_to_hex (K pubKey))) = min 40 (2 * length (K pubKey))"
    by (simp add: last_chars_def length_bytes_to_hex min_def)
  with eq show ?thesis
    by simp
qed

text \<open>
  Claim C2. When the digest has the 32 bytes of Keccak-256, the address of a public
  key is \<open>0x\<close> followed by the lowercase hexadecimal rendering of the last 20 bytes
  of the digest: 42 characters in all, the 40 after the prefix taken from
  \<open>0123456789abcdef\<close>. The result is a function of the key alone and no input makes
  the function fail.
\<close>

theorem deriveEthAddress_last_20_bytes:
  assumes "length (K pubKey) = 32"
  shows "deriveEthAddress K pubKey = ''0x'' @ bytes_to_hex (drop 12 (K pubKey))
       \<and> length (deriveEthAddress K pubKey) = 42
       \<and> set (drop 2 (deriveEthAddress K pubKey)) \<subseteq> set ''0123456789abcdef''"
proof -
  have len: "length (bytes_to_hex (K pubKey)) = 64"
    using assms by (simp add: length_bytes_to_hex)
  have "last_chars 40 (bytes_to_hex (K pubKey)) = drop (2 * 12) (bytes_to_hex (K pubKey))"
    by (simp add: last_chars_def len)
  also have "\<dots> = bytes_to_hex (drop 12 (K pubKey))"
    by (rule drop_bytes_to_hex)
  finally have eq: "deriveEthAddress K pubKey = ''0x'' @ bytes_to_hex (drop 12 (K pubKey))"
    by (simp add: deriveEthAddress_tail keccak256_def)
  have "length (deriveEthAddress K pubKey) = 42"
    using assms by (simp add: eq length_bytes_to_hex)
  moreover have "set (drop 2 (deriveEthAddress K pubKey)) \<subseteq> set ''0123456789abcdef''"
    using bytes_to_hex_alphabet [of "drop 12 (K pubKey)"] by (simp add: eq)
  ultimately show ?thesis
    using eq by simp
qed

lemma demo_derived_address:
  "deriveEthAddress demo_digest demo_pubKey = ''0x0000000000000000000000000000000000000001''"
  by (simp add: deriveEthAddress_def keccak256_def demo_digest_def demo_pubKey_def demo_privKey_def
      bytes_to_hex_def byte_hex_def hex_digit_def js_substring_def)

theorem deriveEthAddress_last_20_bytes_witness:
  "length (demo_digest demo_pubKey) = 32
 \<and> deriveEthAddress demo_digest demo_pubKey = ''0x'' @ bytes_to_hex (drop 12 (demo_digest demo_pubKey))
 \<and> deriveEthAddress demo_digest demo_pubKey = ''0x0000000000000000000000000000000000000001''
 \<and> length (deriveEthAddress demo_digest demo_pubKey) = 42"
proof -
  have h: "length (demo_digest demo_pubKey) = 32"
    by (simp add: demo_digest_def)
  show ?thesis
    using h deriveEthAddress_last_20_bytes [of demo_digest demo_pubKey, OF h] demo_derived_address
    by blast
qed

section \<open>Properties of seed and key derivation\<close>

lemma length_xor_bytes: "length (xor_bytes a b) = min (length a) (length b)"
  by (simp add: xor_bytes_def)

lemma length_hmac_iterate:
  assumes "\<forall>u. length (f u) = n" and "length acc = n"
  shows "length (hmac_iterate f k u acc) = n"
  using assms(2)
proof (induction k arbitrary: u acc)
  case 0
  then show ?case by simp
next
  case (Suc k)
  have "length (xor_bytes acc (f u)) = n"
    using Suc.prems assms(1) by (simp add: length_xor_bytes)
  then show ?case
    by (simp add: Suc.IH)
qed

lemma length_stretch:
  assumes "\<forall>key msg. length (hmac key msg) = n"
  shows "length (stretch hmac rounds password salt) = n"
  using assms by (simp add: stretch_def Let_def length_hmac_iterate)

lemma length_spec_mnemonicToSeed:
  assumes "\<forall>key msg. length (hmac key msg) = 64"
  shows "length (spec_mnemonicToSeed hmac rounds salt_of mnemonic passphrase) = 64"
  by (simp add: spec_mnemonicToSeed_def length_stretch [OF assms])

text \<open>
  Claim C4. The seed is determined by the mnemonic and the key by the seed. A call
  \<^verbatim>\<open>generateSeed(mnemonic, passphrase)\<close> returns, for every passphrase, the seed that
  \<^verbatim>\<open>mnemonicToSeed\<close> gives for the mnemonic without passphrase (\<open>generateSeed\<close> has no
  parameter to take one), so two calls with the same inputs return the same bytes; with
  the stretch of the specification over an HMAC of 64 bytes the seed has 64 bytes,
  whatever the mnemonic and the number of rounds. \<open>generatePrivKey\<close> takes the
  mnemonic, not seed and path: the path is fixed and the mnemonic enters only through
  its seed, so two calls whose seeds are the same return the same key (or the same
  library error), also for different mnemonics or seed libraries.
\<close>

theorem seed_and_key_determined_by_inputs:
  assumes "mnemonicToSeed B = spec_mnemonicToSeed hmac rounds salt_of"
    and "\<forall>key msg. length (hmac key msg) = 64"
  shows "generateSeed_call B mnemonic passphrase
           = spec_mnemonicToSeed hmac rounds salt_of mnemonic None
       \<and> length (generateSeed_call B mnemonic passphrase) = 64
       \<and> (generateSeed B mnemonic = generateSeed B' mnemonic' \<longrightarrow>
            generatePrivKey B W mnemonic = generatePrivKey B' W mnemonic')"
proof -
  have seed: "generateSeed_call B mnemonic passphrase
                = spec_mnemonicToSeed hmac rounds salt_of mnemonic None"
    by (simp add: generateSeed_call_def generateSeed_def assms(1))
  have "length (generateSeed_call B mnemonic passphrase) = 64"
    unfolding seed by (rule length_spec_mnemonicToSeed [OF assms(2)])
  moreover have "generateSeed B mnemonic = generateSeed B' mnemonic' \<longrightarrow>
            generatePrivKey B W mnemonic = generatePrivKey B' W mnemonic'"
    by (simp add: generatePrivKey_def)
  ultimately show ?thesis
    using seed by simp
qed

theorem seed_and_key_determined_by_inputs_witness:
  "generateSeed_call demo_bip39_stretch demo_mnemonic ''TREZOR''
     = spec_mnemonicToSeed demo_hmac 3 demo_salt demo_mnemonic None
 \<and> generateSeed_call demo_bip39_stretch demo_mnemonic ''TREZOR''
     = generateSeed_call demo_bip39_stretch demo_mnemonic []
 \<and> length (generateSeed_call demo_bip39_stretch demo_mnemonic ''TREZOR'') = 64
 \<and> generateSeed demo_bip39_stretch demo_mnemonic = generateSeed demo_bip39_fixed demo_mnemonic
 \<and> generatePrivKey demo_bip39_stretch demo_wallet demo_mnemonic
     = generatePrivKey demo_bip39_fixed demo_wallet demo_mnemonic"
proof -
  have a: "mnemonicToSeed demo_bip39_stretch = spec_mnemonicToSeed demo_hmac 3 demo_salt"
    by (simp add: demo_bip39_stretch_def)
  have b: "\<forall>key msg. length (demo_hmac key msg) = 64"
    by (simp add: demo_hmac_def min_def)
  have c: "generateSeed demo_bip39_stretch demo_mnemonic
             = generateSeed demo_bip39_fixed demo_mnemonic"
    by (simp add: generateSeed_def demo_bip39_fixed_def)
  note t = seed_and_key_determined_by_inputs [OF a b, of demo_mnemonic "''TREZOR''"
      demo_bip39_fixed demo_mnemonic demo_wallet]
  note e = seed_and_key_determined_by_inputs [OF a b, of demo_mnemonic "[]"
      demo_bip39_fixed demo_mnemonic demo_wallet]
  show ?thesis
  proof (intro conjI)
    show "generateSeed_call demo_bip39_stretch demo_mnemonic ''TREZOR''
            = spec_mnemonicToSeed demo_hmac 3 demo_salt demo_mnemonic None"
      using t by (rule conjunct1)
    show "generateSeed_call demo_bip39_stretch demo_mnemonic ''TREZOR''
            = generateSeed_call demo_bip39_stretch demo_mnemonic []"
      by (simp add: t [THEN conjunct1] e [THEN conjunct1])
    show "length (generateSeed_call demo_bip39_stretch demo_mnemonic ''TREZOR'') = 64"
      using t by blast
    show "generateSeed demo_bip39_stretch demo_mnemonic
            = generateSeed demo_bip39_fixed demo_mnemonic"
      by (rule c)
    show "generatePrivKey demo_bip39_stretch demo_wallet demo_mnemonic
            = generatePrivKey demo_bip39_fixed demo_wallet demo_mnemonic"
      using t c by blast
  qed
qed

text \<open>
  Claim C7, as amended. \<open>generatePrivKey\<close> takes the mnemonic and nothing else, and
  always asks the library for the key at \<open>m/44'/60'/0'/0/0\<close>, from the seed of the
  mnemonic without passphrase. No other path can be requested through it.
\<close>

theorem generatePrivKey_uses_fixed_path:
  "generatePrivKey B W mnemonic =
     hdkey_privateKey W (mnemonicToSeed B mnemonic None) ''m/44'/60'/0'/0/0''"
  by (simp add: generatePrivKey_def generateSeed_def)

lemma demo_child:
  "hdkey_privateKey demo_wallet seed (''m/'' @ p) =
     Inr (take 32 (rev (char_bytes (''m/'' @ p)) @ take 32 seed))"
  by (simp add: hdkey_privateKey_def demo_wallet_def)

text \<open>
  Claim C7 as stated asks that, for every valid path, the derivation returns the
  child key at that path. At the valid path \<open>m/44'/60'/0'/0/1\<close> it does not: the key
  \<open>generatePrivKey\<close> returns is not the one the library derives there.
\<close>

theorem other_path_counterexample:
  "generatePrivKey demo_bip39 demo_wallet demo_mnemonic
     \<noteq> hdkey_privateKey demo_wallet (generateSeed demo_bip39 demo_mnemonic) ''m/44'/60'/0'/0/1''"
  using demo_child [of "generateSeed demo_bip39 demo_mnemonic" "''44'/60'/0'/0/0''"]
        demo_child [of "generateSeed demo_bip39 demo_mnemonic" "''44'/60'/0'/0/1''"]
  by (simp add: generatePrivKey_def char_bytes_def)

section \<open>Properties of signing\<close>

lemma reads_only_unread_key:
  assumes "reads_only keys ctor" and "k \<notin> keys"
  shows "ctor txData [k \<mapsto> v] = ctor txData Map.empty"
proof -
  have "\<forall>k'\<in>keys. [k \<mapsto> v] k' = Map.empty k'"
    using assms(2) by auto
  then show ?thesis
    by (rule assms(1) [unfolded reads_only_def, THEN spec, THEN spec, THEN spec, THEN mp])
qed

text \<open>
  Claim C10. \<open>signLegacyTx\<close> hands its \<^verbatim>\<open>Common\<close> to the constructor under the property
  \<^verbatim>\<open>txParams\<close>, \<open>signEIP1559Tx\<close> under \<^verbatim>\<open>txOptions\<close>. For every library whose constructors
  read their options only through a set of properties that holds neither name, both
  functions return what constructing the transaction with no options at all and
  signing it returns: the chain and hardfork chosen in \<^verbatim>\<open>main.js\<close> have no effect.
\<close>

theorem common_option_has_no_effect:
  assumes "reads_only keys (Transaction_fromTxData L)"
    and "reads_only keys (FeeMarketEIP1559Transaction_fromTxData L)"
    and "''txParams'' \<notin> keys"
    and "''txOptions'' \<notin> keys"
  shows "signLegacyTx L privKey txData =
           (case Transaction_fromTxData L txData Map.empty of
              Inl e \<Rightarrow> Inl e
            | Inr tx \<Rightarrow> tx_sign L tx privKey)
       \<and> signEIP1559Tx L privKey txData =
           (case FeeMarketEIP1559Transaction_fromTxData L txData Map.empty of
              Inl e \<Rightarrow> Inl e
            | Inr tx \<Rightarrow> tx_sign L tx privKey)"
  using reads_only_unread_key [OF assms(1) assms(3)] reads_only_unread_key [OF assms(2) assms(4)]
  by (simp add: signLegacyTx_def signEIP1559Tx_def)

lemma demo_reads_only_common:
  "reads_only {''common''} (demo_fromTxData var names)"
  by (simp add: reads_only_def demo_fromTxData_def demo_chainId_def)

theorem common_option_has_no_effect_witness:
  "reads_only {''common''} (Transaction_fromTxData demo_txlib)
 \<and> reads_only {''common''} (FeeMarketEIP1559Transaction_fromTxData demo_txlib)
 \<and> ''txParams'' \<notin> {''common''} \<and> ''txOptions'' \<notin> {''common''}
 \<and> signLegacyTx demo_txlib demo_privKey sampleLegacyTransaction =
      (case Transaction_fromTxData demo_txlib sampleLegacyTransaction Map.empty of
         Inl e \<Rightarrow> Inl e
       | Inr tx \<Rightarrow> tx_sign demo_txlib tx demo_privKey)
 \<and> signEIP1559Tx demo_txlib demo_privKey sampleEIP1559Transaction =
      (case FeeMarketEIP1559Transaction_fromTxData demo_txlib sampleEIP1559Transaction Map.empty of
         Inl e \<Rightarrow> Inl e
       | Inr tx \<Rightarrow> tx_sign demo_txlib tx demo_privKey)"
proof -
  have a: "reads_only {''common''} (Transaction_fromTxData demo_txlib)"
    by (simp add: demo_txlib_def demo_reads_only_common)
  have b: "reads_only {''common''} (FeeMarketEIP1559Transaction_fromTxData demo_txlib)"
    by (simp add: demo_txlib_def demo_reads_only_common)
  have c: "''txParams'' \<notin> {''common''}" and d: "''txOptions'' \<notin> {''common''}"
    by simp_all
  show ?thesis
    using a b c d
      common_option_has_no_effect [OF a b c d, of demo_privKey sampleLegacyTransaction]
      common_option_has_no_effect [OF a b c d, of demo_privKey sampleEIP1559Transaction]
    by blast
qed

text \<open>
  Claim C3, as amended. The signing functions look at no property of the payload.
  Whatever its shape, \<open>signLegacyTx\<close> hands it to \<^verbatim>\<open>Transaction.fromTxData\<close> and
  \<open>signEIP1559Tx\<close> to \<^verbatim>\<open>FeeMarketEIP1559Transaction.fromTxData\<close>, and signs what comes
  back. They raise no error of their own: a call fails exactly when the library's
  constructor or its signer throws, and with that error.
\<close>

theorem signing_checks_no_shape:
  "(signLegacyTx L privKey txData = Inl e \<longleftrightarrow>
      Transaction_fromTxData L txData
          [''txParams'' \<mapsto> JCommon \<lparr>chain = Mainnet, hardfork = Istanbul\<rparr>] = Inl e
      \<or> (\<exists>tx. Transaction_fromTxData L txData
                [''txParams'' \<mapsto> JCommon \<lparr>chain = Mainnet, hardfork = Istanbul\<rparr>] = Inr tx
             \<and> tx_sign L tx privKey = Inl e))
 \<and> (signEIP1559Tx L privKey txData = Inl e \<longleftrightarrow>
      FeeMarketEIP1559Transaction_fromTxData L txData
          [''txOptions'' \<mapsto> JCommon \<lparr>chain = Mainnet, hardfork = London\<rparr>] = Inl e
      \<or> (\<exists>tx. FeeMarketEIP1559Transaction_fromTxData L txData
                [''txOptions'' \<mapsto> JCommon \<lparr>chain = Mainnet, hardfork = London\<rparr>] = Inr tx
             \<and> tx_sign L tx privKey = Inl e))"
  by (auto simp: signLegacyTx_def signEIP1559Tx_def split: sum.splits)

lemma be_nat_demo_privKey: "be_nat demo_privKey = 1"
  by (simp add: be_nat_def demo_privKey_def)

lemma valid_demo_privKey: "valid_private_key demo_privKey"
  by (simp add: valid_private_key_def be_nat_demo_privKey secp256k1_order_def)
     (simp add: demo_privKey_def)

lemma spec_sign_succeeds: "valid_private_key key \<Longrightarrow> isl (spec_sign P tx key) = False"
  by (simp add: spec_sign_def split: prod.splits)

lemma spec_sign_invalid_key:
  "\<not> valid_private_key key \<Longrightarrow> spec_sign P tx key = Inl ''SigningKeyInvalid''"
  by (simp add: spec_sign_def)

text \<open>
  Claim C3 as stated fails on the legacy sample with its \<^verbatim>\<open>gasPrice\<close> removed. The
  payload has neither shape, and with a constructor that reads an absent field as
  empty both signing functions succeed on it; none fails with
  \<^verbatim>\<open>UnsupportedTransactionType\<close>.
\<close>

theorem unsupported_type_counterexample:
  "\<not> legacy_shape payload_without_fees \<and> \<not> feeMarket_shape payload_without_fees
 \<and> \<not> isl (signLegacyTx demo_txlib demo_privKey payload_without_fees)
 \<and> \<not> isl (signEIP1559Tx demo_txlib demo_privKey payload_without_fees)
 \<and> signLegacyTx demo_txlib demo_privKey payload_without_fees \<noteq> Inl UnsupportedTransactionType"
proof -
  have shape: "\<not> legacy_shape payload_without_fees \<and> \<not> feeMarket_shape payload_without_fees"
    by (simp add: legacy_shape_def feeMarket_shape_def payload_without_fees_def
        sampleLegacyTransaction_def)
  have l: "\<not> isl (signLegacyTx demo_txlib demo_privKey payload_without_fees)"
    using spec_sign_succeeds [OF valid_demo_privKey]
    by (simp add: signLegacyTx_def demo_txlib_def demo_fromTxData_def)
  have f: "\<not> isl (signEIP1559Tx demo_txlib demo_privKey payload_without_fees)"
    using spec_sign_succeeds [OF valid_demo_privKey]
    by (simp add: signEIP1559Tx_def demo_txlib_def demo_fromTxData_def)
  from l have "signLegacyTx demo_txlib demo_privKey payload_without_fees
                 \<noteq> Inl UnsupportedTransactionType"
    by auto
  with shape l f show ?thesis by simp
qed

lemma demo_sign_legacy_sample:
  "signLegacyTx demo_txlib demo_privKey sampleLegacyTransaction = Inr demo_signed_legacy"
  apply (simp add: signLegacyTx_def demo_txlib_def demo_fromTxData_def spec_sign_def
      valid_demo_privKey demo_primitives_def demo_chainId_def sampleLegacyTransaction_def
      be_nat_demo_privKey tx_signature_def)
  apply (simp add: demo_encode_def demo_digest_def char_bytes_def)
  apply (simp add: be_nat_def recovery_id_def demo_signed_legacy_def sampleLegacyTransaction_def)
  done

lemma demo_sign_feeMarket_sample:
  "signEIP1559Tx demo_txlib demo_privKey sampleEIP1559Transaction = Inr demo_signed_feeMarket"
  apply (simp add: signEIP1559Tx_def demo_txlib_def demo_fromTxData_def spec_sign_def
      valid_demo_privKey demo_primitives_def demo_chainId_def sampleEIP1559Transaction_def
      be_nat_demo_privKey tx_signature_def)
  apply (simp add: demo_encode_def demo_digest_def char_bytes_def)
  apply (simp add: be_nat_def recovery_id_def demo_signed_feeMarket_def
      sampleEIP1559Transaction_def)
  done

lemma rfc6979_deterministic: "deterministic_nonces (rfc6979_nonces P)"
  by (simp add: deterministic_nonces_def rfc6979_nonces_def)

lemma spec_sign_outcome: "spec_sign P tx key \<in> sign_outcomes P (rfc6979_nonces P) tx key"
  by (simp add: spec_sign_def sign_outcomes_def rfc6979_nonces_def signed_with_nonce_def
      tx_signature_def Let_def split: prod.splits)

lemma sign_outcomes_unique:
  assumes "deterministic_nonces nonces"
    and "a \<in> sign_outcomes P nonces tx key"
    and "b \<in> sign_outcomes P nonces tx key"
  shows "a = b"
proof (cases "valid_private_key key")
  case False
  with assms(2,3) show ?thesis
    by (simp add: sign_outcomes_def)
next
  case True
  with assms(2) obtain k where k: "k \<in> nonces key (digest P (encode_tx P tx))"
    and a: "a = Inr (signed_with_nonce P tx key k)"
    by (auto simp: sign_outcomes_def)
  from True assms(3) obtain k' where k': "k' \<in> nonces key (digest P (encode_tx P tx))"
    and b: "b = Inr (signed_with_nonce P tx key k')"
    by (auto simp: sign_outcomes_def)
  from assms(1) k k' have "k = k'"
    unfolding deterministic_nonces_def by blast
  with a b show ?thesis
    by simp
qed

text \<open>
  Claim C8. Two invocations of a signing function with the same key and payload
  return the same \<open>(v, r, s)\<close> (or the same error) when the nonce generation is
  deterministic in the style of RFC 6979. \<open>L1\<close> and \<open>L2\<close> are the library as it
  behaves at the first and at the second invocation: at each, its signer returns one
  of the outcomes that the signer of the specification has under a nonce its
  generator allows, and its constructors build the same transaction. If the
  generator allows at most one nonce for a key and a hash, \<open>signLegacyTx\<close> returns
  the same triple at both invocations, and so does \<open>signEIP1559Tx\<close>.
\<close>

theorem two_invocations_same_signature:
  assumes "deterministic_nonces nonces"
    and "\<forall>tx key. tx_sign L1 tx key \<in> sign_outcomes P nonces tx key"
    and "\<forall>tx key. tx_sign L2 tx key \<in> sign_outcomes P nonces tx key"
    and "Transaction_fromTxData L1 = Transaction_fromTxData L2"
    and "FeeMarketEIP1559Transaction_fromTxData L1 = FeeMarketEIP1559Transaction_fromTxData L2"
  shows "map_sum id signature_triple (signLegacyTx L1 privKey txData)
           = map_sum id signature_triple (signLegacyTx L2 privKey txData)
       \<and> map_sum id signature_triple (signEIP1559Tx L1 privKey txData)
           = map_sum id signature_triple (signEIP1559Tx L2 privKey txData)"
proof -
  have same: "tx_sign L1 tx key = tx_sign L2 tx key" for tx key
    by (rule sign_outcomes_unique [OF assms(1) assms(2) [rule_format] assms(3) [rule_format]])
  have "signLegacyTx L1 privKey txData = signLegacyTx L2 privKey txData"
    by (simp add: signLegacyTx_def assms(4) same split: sum.splits)
  moreover have "signEIP1559Tx L1 privKey txData = signEIP1559Tx L2 privKey txData"
    by (simp add: signEIP1559Tx_def assms(5) same split: sum.splits)
  ultimately show ?thesis
    by simp
qed

lemma demo_txlib_with_outcome:
  "tx_sign (demo_txlib_with pick) tx key
     \<in> sign_outcomes demo_primitives (\<lambda>key h. {pick key h}) tx key"
  by (simp add: demo_txlib_with_def sign_outcomes_def)

theorem two_invocations_same_signature_witness:
  "deterministic_nonces (rfc6979_nonces demo_primitives)
 \<and> map_sum id signature_triple (signLegacyTx demo_txlib demo_privKey sampleLegacyTransaction)
     = map_sum id signature_triple
         (signLegacyTx (demo_txlib_with (nonce_of demo_primitives)) demo_privKey
            sampleLegacyTransaction)
 \<and> map_sum id signature_triple (signLegacyTx demo_txlib demo_privKey sampleLegacyTransaction)
     = Inr (37, 14134, 14134)
 \<and> map_sum id signature_triple (signEIP1559Tx demo_txlib demo_privKey sampleEIP1559Transaction)
     = map_sum id signature_triple
         (signEIP1559Tx (demo_txlib_with (nonce_of demo_primitives)) demo_privKey
            sampleEIP1559Transaction)
 \<and> map_sum id signature_triple (signEIP1559Tx demo_txlib demo_privKey sampleEIP1559Transaction)
     = Inr (0, 14134, 14134)"
proof -
  have d: "deterministic_nonces (rfc6979_nonces demo_primitives)"
    by (rule rfc6979_deterministic)
  have s1: "\<forall>tx key. tx_sign demo_txlib tx key
              \<in> sign_outcomes demo_primitives (rfc6979_nonces demo_primitives) tx key"
    by (simp add: demo_txlib_def spec_sign_outcome)
  have "rfc6979_nonces demo_primitives = (\<lambda>key h. {nonce_of demo_primitives key h})"
    by (intro ext) (simp add: rfc6979_nonces_def)
  then have s2: "\<forall>tx key. tx_sign (demo_txlib_with (nonce_of demo_primitives)) tx key
              \<in> sign_outcomes demo_primitives (rfc6979_nonces demo_primitives) tx key"
    by (simp add: demo_txlib_with_outcome)
  have c1: "Transaction_fromTxData demo_txlib
              = Transaction_fromTxData (demo_txlib_with (nonce_of demo_primitives))"
    and c2: "FeeMarketEIP1559Transaction_fromTxData demo_txlib
              = FeeMarketEIP1559Transaction_fromTxData (demo_txlib_with (nonce_of demo_primitives))"
    by (simp_all add: demo_txlib_with_def)
  note t1 = two_invocations_same_signature [OF d s1 s2 c1 c2, of demo_privKey
      sampleLegacyTransaction]
  note t2 = two_invocations_same_signature [OF d s1 s2 c1 c2, of demo_privKey
      sampleEIP1559Transaction]
  have v1: "map_sum id signature_triple
              (signLegacyTx demo_txlib demo_privKey sampleLegacyTransaction)
              = Inr (37, 14134, 14134)"
    by (simp add: demo_sign_legacy_sample signature_triple_def demo_signed_legacy_def)
  have v2: "map_sum id signature_triple
              (signEIP1559Tx demo_txlib demo_privKey sampleEIP1559Transaction)
              = Inr (0, 14134, 14134)"
    by (simp add: demo_sign_feeMarket_sample signature_triple_def demo_signed_feeMarket_def)
  show ?thesis
    using d t1 [THEN conjunct1] t2 [THEN conjunct2] v1 v2 by blast
qed

text \<open>
  Without that condition the conclusion fails. A signer that draws its nonce stays
  within the outcomes of a generator that allows every nonce, and two invocations of
  \<open>signLegacyTx\<close> on the same key and payload, one under the nonce 1 and one under
  the nonce 2, return different triples.
\<close>

lemma random_nonce_outcome:
  "tx_sign (demo_txlib_with (\<lambda>key h. k)) tx key
     \<in> sign_outcomes demo_primitives (\<lambda>key h. UNIV) tx key"
  by (simp add: demo_txlib_with_def sign_outcomes_def)

lemma random_nonce_signatures_differ:
  "map_sum id signature_triple
     (signLegacyTx (demo_txlib_with (\<lambda>key h. 1)) demo_privKey sampleLegacyTransaction)
     = Inr (38, 1, 1)
 \<and> map_sum id signature_triple
     (signLegacyTx (demo_txlib_with (\<lambda>key h. 2)) demo_privKey sampleLegacyTransaction)
     = Inr (37, 2, 2)"
  by (simp add: signLegacyTx_def demo_txlib_with_def demo_txlib_def demo_fromTxData_def
      valid_demo_privKey signed_with_nonce_def demo_primitives_def demo_chainId_def
      be_nat_demo_privKey recovery_id_def signature_triple_def)

lemma spec_sign_v:
  assumes "spec_sign P tx key = Inr stx"
  shows "unsigned stx = tx
       \<and> sig_v stx = recovery_id (variant_of P tx) (chainId_of P tx)
                        (fst (tx_signature P tx key))"
  using assms by (auto simp: spec_sign_def split: if_splits prod.splits)

text \<open>
  Claim C5. With the signer of the specification as the library's \<^verbatim>\<open>tx.sign\<close>, and
  constructors that build a transaction of their own variant, every signed
  transaction that \<open>signLegacyTx\<close> returns has \<open>v = recoveryBit + chainId * 2 + 35\<close>
  and every one that \<open>signEIP1559Tx\<close> returns has \<open>v = recoveryBit\<close>, which is 0 or 1.
  The recovery bit is that of the signature over the hash of the encoded transaction,
  the chain identifier that of the transaction the constructor built.
\<close>

theorem recovery_identifier_by_variant:
  assumes "tx_sign L = spec_sign P"
    and "\<forall>txData opts tx. Transaction_fromTxData L txData opts = Inr tx
           \<longrightarrow> variant_of P tx = Legacy"
    and "\<forall>txData opts tx. FeeMarketEIP1559Transaction_fromTxData L txData opts = Inr tx
           \<longrightarrow> variant_of P tx = FeeMarket"
  shows "(signLegacyTx L privKey txData = Inr stx \<longrightarrow>
            sig_v stx = of_bool (fst (tx_signature P (unsigned stx) privKey))
                          + chainId_of P (unsigned stx) * 2 + 35)
       \<and> (signEIP1559Tx L privKey txData = Inr stx \<longrightarrow>
            sig_v stx = of_bool (fst (tx_signature P (unsigned stx) privKey))
          \<and> sig_v stx \<in> {0, 1})"
proof (intro conjI impI)
  assume s: "signLegacyTx L privKey txData = Inr stx"
  then obtain tx where
    c: "Transaction_fromTxData L txData
          [''txParams'' \<mapsto> JCommon \<lparr>chain = Mainnet, hardfork = Istanbul\<rparr>] = Inr tx"
    and g: "spec_sign P tx privKey = Inr stx"
    by (auto simp: signLegacyTx_def assms(1) split: sum.splits)
  from c assms(2) have "variant_of P tx = Legacy"
    by blast
  with spec_sign_v [OF g]
  show "sig_v stx = of_bool (fst (tx_signature P (unsigned stx) privKey))
                      + chainId_of P (unsigned stx) * 2 + 35"
    by (simp add: recovery_id_def)
next
  assume s: "signEIP1559Tx L privKey txData = Inr stx"
  then obtain tx where
    c: "FeeMarketEIP1559Transaction_fromTxData L txData
          [''txOptions'' \<mapsto> JCommon \<lparr>chain = Mainnet, hardfork = London\<rparr>] = Inr tx"
    and g: "spec_sign P tx privKey = Inr stx"
    by (auto simp: signEIP1559Tx_def assms(1) split: sum.splits)
  from c assms(3) have v: "variant_of P tx = FeeMarket"
    by blast
  with spec_sign_v [OF g]
  show "sig_v stx = of_bool (fst (tx_signature P (unsigned stx) privKey))"
    by (simp add: recovery_id_def)
  then show "sig_v stx \<in> {0, 1}"
    by (simp add: of_bool_def)
qed

theorem recovery_identifier_by_variant_witness:
  "signLegacyTx demo_txlib demo_privKey sampleLegacyTransaction = Inr demo_signed_legacy
 \<and> sig_v demo_signed_legacy =
      of_bool (fst (tx_signature demo_primitives (unsigned demo_signed_legacy) demo_privKey))
        + chainId_of demo_primitives (unsigned demo_signed_legacy) * 2 + 35
 \<and> sig_v demo_signed_legacy = 37
 \<and> signEIP1559Tx demo_txlib demo_privKey sampleEIP1559Transaction = Inr demo_signed_feeMarket
 \<and> sig_v demo_signed_feeMarket = 0"
proof -
  have a: "tx_sign demo_txlib = spec_sign demo_primitives"
    by (simp add: demo_txlib_def)
  have b: "\<forall>txData opts tx. Transaction_fromTxData demo_txlib txData opts = Inr tx
             \<longrightarrow> variant_of demo_primitives tx = Legacy"
    by (auto simp: demo_txlib_def demo_fromTxData_def demo_primitives_def)
  have c: "\<forall>txData opts tx. FeeMarketEIP1559Transaction_fromTxData demo_txlib txData opts = Inr tx
             \<longrightarrow> variant_of demo_primitives tx = FeeMarket"
    by (auto simp: demo_txlib_def demo_fromTxData_def demo_primitives_def)
  have v: "sig_v demo_signed_legacy = 37" "sig_v demo_signed_feeMarket = 0"
    by (simp_all add: demo_signed_legacy_def demo_signed_feeMarket_def)
  show ?thesis
    using recovery_identifier_by_variant [OF a b c, of demo_privKey sampleLegacyTransaction
        demo_signed_legacy]
      demo_sign_legacy_sample demo_sign_feeMarket_sample v
    by simp
qed

section \<open>Properties of mnemonic validation\<close>

lemma bits_of_unroll: "0 < w \<Longrightarrow> bits_of w n = bits_of (w - 1) (n div 2) @ [odd n]"
  by (cases w) simp_all

text \<open>
  The model accepts the phrase of all-zero entropy, eleven times the first word of the
  list and then the fourth, once the hash of sixteen zero bytes starts with the byte
  \<open>0x37\<close> (as SHA-256 does), and rejects the same phrase with another last word.
\<close>

lemma validateMnemonic_accepts_zero_entropy:
  "validateMnemonic [''abandon'', ''ability'', ''able'', ''about''] (\<lambda>entropy. [0x37])
     ''abandon abandon abandon abandon abandon abandon abandon abandon abandon abandon abandon about''"
  by (simp add: validateMnemonic_def mnemonic_word_counts_def checksum_ok_def bits_of_unroll
      bytes_to_bits_def)

lemma validateMnemonic_rejects_bad_checksum:
  "\<not> validateMnemonic [''abandon'', ''ability'', ''able'', ''about''] (\<lambda>entropy. [0x37])
     ''abandon abandon abandon abandon abandon abandon abandon abandon abandon abandon abandon able''"
  by (simp add: validateMnemonic_def mnemonic_word_counts_def checksum_ok_def bits_of_unroll
      bytes_to_bits_def)

text \<open>
  Claim C6. \<open>validateMnemonic\<close> returns a truth value for every string and fails for
  none. It is false whenever a word of the candidate is not in the wordlist, the
  number of words is not one of 12, 15, 18, 21 and 24, or the checksum does not
  match; the seven words of \<open>not a real mnemonic phrase at all\<close> are rejected for
  their number, whatever the wordlist and the hash.
\<close>

theorem validateMnemonic_rejects_malformed:
  "(((\<exists>w\<in>set (split_on CHR '' '' candidate). w \<notin> set wordlist)
      \<or> length (split_on CHR '' '' candidate) \<notin> set mnemonic_word_counts
      \<or> \<not> checksum_ok H (map (index_of wordlist) (split_on CHR '' '' candidate)))
     \<longrightarrow> validateMnemonic wordlist H candidate = False)
 \<and> validateMnemonic wordlist H ''not a real mnemonic phrase at all'' = False"
proof -
  have "length (split_on CHR '' '' ''not a real mnemonic phrase at all'') = 7"
    by simp
  then have "validateMnemonic wordlist H ''not a real mnemonic phrase at all'' = False"
    by (simp add: validateMnemonic_def mnemonic_word_counts_def)
  then show ?thesis
    by (auto simp: validateMnemonic_def Let_def list_all_iff)
qed

theorem validateMnemonic_rejects_malformed_witness:
  "(\<exists>w\<in>set (split_on CHR '' '' ''abandon zzzz''). w \<notin> set [''abandon'', ''ability''])
 \<and> validateMnemonic [''abandon'', ''ability''] demo_digest ''abandon zzzz'' = False
 \<and> validateMnemonic [''abandon'', ''ability''] demo_digest ''not a real mnemonic phrase at all''
      = False"
proof -
  have h: "\<exists>w\<in>set (split_on CHR '' '' ''abandon zzzz''). w \<notin> set [''abandon'', ''ability'']"
    by simp
  show ?thesis
    using h validateMnemonic_rejects_malformed
      [of "''abandon zzzz''" "[''abandon'', ''ability'']" demo_digest]
    by blast
qed

section \<open>The recovered address against the derived one\<close>

lemma be_bytes_unroll:
  "0 < len \<Longrightarrow> be_bytes len n = be_bytes (len - 1) (n div 256) @ [of_nat n]"
  by (cases len) simp_all

lemma be_bytes_one: "be_bytes 32 (Suc 0) = demo_privKey"
  by (simp add: be_bytes_unroll demo_privKey_def)

lemma demo_address_privKey:
  "demo_address demo_privKey = [0, 0, 0, 0, 0, 0, 0, 0, 0, 0, 0, 0, 0, 0, 0, 0, 0, 0, 0, 1]"
  by (simp add: demo_address_def demo_digest_def demo_privKey_def)

lemma demo_recover_legacy:
  "getSignerAddress demo_txlib demo_signed_legacy
     = Inr ''0x0x0000000000000000000000000000000000000001''"
  by (simp add: getSignerAddress_def demo_txlib_def demo_signed_legacy_def be_bytes_one
      demo_address_privKey bytes_to_hex_def byte_hex_def hex_digit_def)

text \<open>
  Claim C1. \<open>getSignerAddress\<close> puts \<open>0x\<close> in front of what \<^verbatim>\<open>Address.toString\<close> returns.
  The \<^verbatim>\<open>Address\<close> class of @ethereumjs/util prints itself with the \<open>0x\<close> prefix already
  (its \<^verbatim>\<open>toString\<close> takes no encoding). For every library that does so, the recovered
  string starts with \<open>0x0x\<close>, and it differs from every string \<open>deriveEthAddress\<close>
  can return, whose third and fourth characters are hexadecimal digits: the equality
  of recovered and derived address fails for every key and transaction.
\<close>

theorem recovered_address_doubles_prefix:
  assumes "\<forall>a enc. take 2 (Address_toString L a enc) = ''0x''"
  shows "getSignerAddress L signedTx = Inr recovered \<longrightarrow>
           take 4 recovered = ''0x0x'' \<and> recovered \<noteq> deriveEthAddress K pubKey"
proof
  assume r: "getSignerAddress L signedTx = Inr recovered"
  then obtain a where rec: "recovered = ''0x'' @ Address_toString L a ''hex''"
    by (auto simp: getSignerAddress_def split: sum.splits)
  from assms have p: "take 2 (Address_toString L a ''hex'') = ''0x''"
    by blast
  then obtain t where t: "Address_toString L a ''hex'' = ''0x'' @ t"
    by (metis append_take_drop_id)
  have four: "take 4 recovered = ''0x0x''"
    by (simp add: rec t)
  have "recovered \<noteq> deriveEthAddress K pubKey"
  proof
    assume "recovered = deriveEthAddress K pubKey"
    then have "''0x'' @ t = last_chars 40 (bytes_to_hex (K pubKey))"
      by (simp add: rec t deriveEthAddress_tail keccak256_def)
    then have "CHR ''x'' \<in> set (last_chars 40 (bytes_to_hex (K pubKey)))"
      by (metis list.set_intros(1) list.set_intros(2) append_Cons)
    with last_chars_alphabet [of 40 "K pubKey"] show False
      by auto
  qed
  with four show "take 4 recovered = ''0x0x'' \<and> recovered \<noteq> deriveEthAddress K pubKey"
    by simp
qed

theorem recovered_address_doubles_prefix_witness:
  "signLegacyTx demo_txlib demo_privKey sampleLegacyTransaction = Inr demo_signed_legacy
 \<and> getSignerAddress demo_txlib demo_signed_legacy
      = Inr ''0x0x0000000000000000000000000000000000000001''
 \<and> derivePubKey demo_wallet demo_privKey = Inr demo_pubKey
 \<and> deriveEthAddress demo_digest demo_pubKey = ''0x0000000000000000000000000000000000000001''
 \<and> ''0x0x0000000000000000000000000000000000000001'' \<noteq> deriveEthAddress demo_digest demo_pubKey"
proof -
  have h: "\<forall>a enc. take 2 (Address_toString demo_txlib a enc) = ''0x''"
    by (simp add: demo_txlib_def)
  have pk: "derivePubKey demo_wallet demo_privKey = Inr demo_pubKey"
    by (simp add: derivePubKey_def demo_wallet_def valid_demo_privKey demo_pubKey_def)
  show ?thesis
    using recovered_address_doubles_prefix [OF h, of demo_signed_legacy
        "''0x0x0000000000000000000000000000000000000001''" demo_digest demo_pubKey]
      demo_recover_legacy demo_sign_legacy_sample pk demo_derived_address
    by simp
qed

end
